theory Spec2Isabelle
  imports Main "HOL-Library.Char_ord" "HOL-Library.List_Lexorder"
begin

section \<open>Data model\<close>

text \<open>
  The page component \<^verbatim>\<open>PhotoGallery\<close> of \<^verbatim>\<open>src/app/page.tsx\<close> keeps three pieces of React
  state (the image list, the upload flag, the pending file) and talks to two collaborators
  through the Supabase client: the table \<^verbatim>\<open>images\<close> and the storage bucket \<^verbatim>\<open>photos\<close>.
\<close>

text \<open>
  \<^verbatim>\<open>interface ImageData\<close>. The field \<^verbatim>\<open>id\<close> is written \<open>id'\<close> (HOL has a constant of
  that name). \<^verbatim>\<open>created_at\<close> is the store's timestamp column: the client receives its
  textual rendering and only hands it to the date library for display, while
  \<^verbatim>\<open>.order("created_at", ...)\<close> is evaluated by the store on the column itself. It is kept
  here as the instant it denotes, a natural number, so that its order is the column's order.
\<close>

record ImageData =
  id' :: int
  created_at :: nat
  file_name :: string
  file_size :: nat
  url :: string
  storage_path :: string

text \<open>
  The browser's \<^verbatim>\<open>File\<close>: its name, its MIME type and its bytes. \<^verbatim>\<open>File.size\<close> is the
  number of bytes, so it is a function of the bytes and not a field of its own.
\<close>

record File =
  name :: string
  type' :: string
  bytes :: string

definition size' :: "File \<Rightarrow> nat" where
  "size' f = length (bytes f)"

text \<open>The error member of a \<^verbatim>\<open>{ data, error }\<close> answer of the client.\<close>

datatype error =
    TransportError string
  | ResourceExists string
  | UnknownRelation string
  | UnknownColumn string

text \<open>The options object that \<^verbatim>\<open>handleUpload\<close> passes to \<^verbatim>\<open>storage.upload\<close>.\<close>

record FileOptions =
  cacheControl :: string
  upsert :: bool
  contentType :: string
  duplex :: string
  metadata :: "(string \<times> string) list"

text \<open>
  The three client calls of the page that go over the network. Each carries the arguments
  the source gives it: the table or bucket, and for the select the column and the
  \<^verbatim>\<open>ascending\<close> flag of \<^verbatim>\<open>.order\<close>.
\<close>

datatype request =
    Select string string bool
  | StorageUpload string string File FileOptions
  | StorageRemove string "string list"
  | DeleteEq string string int

text \<open>
  The answer \<^verbatim>\<open>{ data, error }\<close>. Only the select's \<^verbatim>\<open>data\<close> is read by the page (the rows);
  for the other calls the page looks at \<^verbatim>\<open>error\<close> alone.
\<close>

record response =
  data :: "ImageData list option"
  error :: "error option"

section \<open>The collaborators\<close>

text \<open>
  Modelled from the spec: an object of the bucket (section 6, \<^verbatim>\<open>put(bucket, key, bytes,
  options{contentType, cacheControl, ...})\<close>), holding what \<^verbatim>\<open>storage.upload\<close> is given.
\<close>

record StoredObject =
  body :: string
  object_contentType :: string
  object_cacheControl :: string
  object_metadata :: "(string \<times> string) list"

text \<open>
  Modelled from the spec: the hosted platform of section 6, which is not part of the
  repository. It holds the objects of the bucket \<^verbatim>\<open>photos\<close> by key, the rows of the table
  \<^verbatim>\<open>images\<close>, the table's sequence for \<^verbatim>\<open>id\<close>, its clock, and whether a storage-event
  hook that populates the table (section 9) is installed.
\<close>

record backend =
  objects :: "string \<rightharpoonup> StoredObject"
  rows :: "ImageData list"
  next_id :: int
  clock :: nat
  storage_hook :: bool

text \<open>Decimal digits of a natural number, as JavaScript renders a non-negative integer.\<close>

definition digit_char :: "nat \<Rightarrow> char" where
  "digit_char d = ''0123456789'' ! d"

function digits :: "nat \<Rightarrow> string" where
  "digits n = (if n < 10 then [digit_char n] else digits (n div 10) @ [digit_char (n mod 10)])"
  by pat_completeness auto
termination
  by (relation "measure (\<lambda>n. n)") auto

declare digits.simps [simp del]

definition is_digit :: "char \<Rightarrow> bool" where
  "is_digit c = (48 \<le> (of_char c :: nat) \<and> (of_char c :: nat) \<le> 57)"

text \<open>Reading a decimal numeral back; \<open>None\<close> for the empty string and for any other character.\<close>

fun parse_digits :: "nat \<Rightarrow> string \<Rightarrow> nat option" where
  "parse_digits acc [] = Some acc"
| "parse_digits acc (c # cs) =
     (if is_digit c then parse_digits (10 * acc + ((of_char c :: nat) - 48)) cs else None)"

definition parse_nat :: "string \<Rightarrow> nat option" where
  "parse_nat s = (if s = [] then None else parse_digits 0 s)"

text \<open>
  Modelled from the spec: the store's listing, which the platform evaluates and the
  repository does not contain (section 6, \<^verbatim>\<open>list(table) -> ordered sequence of ImageRecord\<close>).
  The rows are returned ordered by \<^verbatim>\<open>created_at\<close> in the direction the request asks for.
\<close>

definition order_created_at :: "bool \<Rightarrow> ImageData list \<Rightarrow> ImageData list" where
  "order_created_at ascending rs =
     (if ascending then sort_key created_at rs else rev (sort_key created_at rs))"

text \<open>
  Modelled from the spec: the ordering of the listing by the column the request names. The
  table has the columns of the record of section 3; the numeric ones are ordered by value,
  the textual ones by code point. A name that is no column of the table gives no listing.
\<close>

definition direction :: "bool \<Rightarrow> 'a list \<Rightarrow> 'a list" where
  "direction ascending xs = (if ascending then xs else rev xs)"

definition order_rows :: "string \<Rightarrow> bool \<Rightarrow> ImageData list \<Rightarrow> ImageData list option" where
  "order_rows column ascending rs =
     (if column = ''created_at'' then Some (order_created_at ascending rs)
      else if column = ''id'' then Some (direction ascending (sort_key id' rs))
      else if column = ''file_name'' then Some (direction ascending (sort_key file_name rs))
      else if column = ''file_size'' then Some (direction ascending (sort_key file_size rs))
      else if column = ''url'' then Some (direction ascending (sort_key url rs))
      else if column = ''storage_path'' then Some (direction ascending (sort_key storage_path rs))
      else None)"

text \<open>
  Modelled from the spec: the storage-event hook of section 9 (``an external trigger, e.g. a
  storage-event hook populating the metadata store''), which is not part of the repository.
  It creates the record of section 3 for a written object: the id from the table's sequence,
  the creation time from the platform's clock, the original name and size from the
  metadata attached to the object, and the key as locator.
\<close>

definition hook_record :: "backend \<Rightarrow> string \<Rightarrow> FileOptions \<Rightarrow> ImageData" where
  "hook_record b key opts =
     \<lparr> id' = next_id b,
       created_at = clock b,
       file_name = (case map_of (metadata opts) ''filename'' of Some n \<Rightarrow> n | None \<Rightarrow> key),
       file_size = (case map_of (metadata opts) ''size'' of
                      Some s \<Rightarrow> (case parse_nat s of Some n \<Rightarrow> n | None \<Rightarrow> 0)
                    | None \<Rightarrow> 0),
       url = ''/storage/v1/object/public/photos/'' @ key,
       storage_path = key \<rparr>"

text \<open>
  Modelled from the spec: the object storage's \<^verbatim>\<open>put\<close> of section 6. With \<^verbatim>\<open>upsert\<close> false
  the write is refused when the key already holds an object (section 4.1: ``non-overwriting,
  fails if key already exists''). A successful write stores the bytes with the content type,
  cache control and metadata of the options; the metadata table is touched only by the
  hook, when one is installed.
\<close>

definition storage_put :: "string \<Rightarrow> File \<Rightarrow> FileOptions \<Rightarrow> backend \<Rightarrow> response \<times> backend" where
  "storage_put key f opts b =
     (if objects b key \<noteq> None \<and> \<not> upsert opts
      then (\<lparr> data = None, error = Some (ResourceExists key) \<rparr>, b)
      else
        let obj = \<lparr> body = bytes f, object_contentType = contentType opts,
                    object_cacheControl = cacheControl opts, object_metadata = metadata opts \<rparr>;
            b1 = b \<lparr> objects := (objects b)(key \<mapsto> obj) \<rparr>;
            b2 = (if storage_hook b
                  then b1 \<lparr> rows := rows b1 @ [hook_record b key opts],
                            next_id := next_id b1 + 1,
                            clock := Suc (clock b1) \<rparr>
                  else b1)
        in (\<lparr> data = None, error = None \<rparr>, b2))"

text \<open>
  Modelled from the spec: \<^verbatim>\<open>remove(bucket, key) -> success | error\<close> of section 6. The
  objects at the given keys are deleted; a key that holds nothing is passed over.
\<close>

definition storage_remove :: "string list \<Rightarrow> backend \<Rightarrow> response \<times> backend" where
  "storage_remove paths b =
     (\<lparr> data = None, error = None \<rparr>,
      b \<lparr> objects := (\<lambda>k. if k \<in> set paths then None else objects b k) \<rparr>)"

text \<open>
  Modelled from the spec: \<^verbatim>\<open>delete(table, id) -> success | error\<close> of section 6. Every row
  with the id is dropped.
\<close>

definition delete_eq :: "int \<Rightarrow> backend \<Rightarrow> response \<times> backend" where
  "delete_eq i b =
     (\<lparr> data = None, error = None \<rparr>, b \<lparr> rows := filter (\<lambda>r. id' r \<noteq> i) (rows b) \<rparr>)"

text \<open>
  Modelled from the spec: \<^verbatim>\<open>list(table) -> ordered sequence of ImageRecord\<close> of section 6.
  The metadata store holds the one table \<^verbatim>\<open>images\<close>: a select from it answers with all
  its rows, ordered by the named column in the direction asked for; a select from any other
  table, or ordered by a name that is no column, answers with an error. The platform is
  left as it is.
\<close>

definition select_ordered :: "string \<Rightarrow> string \<Rightarrow> bool \<Rightarrow> backend \<Rightarrow> response \<times> backend" where
  "select_ordered table column ascending b =
     (if table \<noteq> ''images''
      then (\<lparr> data = None, error = Some (UnknownRelation table) \<rparr>, b)
      else
        (case order_rows column ascending (rows b) of
           None \<Rightarrow> (\<lparr> data = None, error = Some (UnknownColumn column) \<rparr>, b)
         | Some rs \<Rightarrow> (\<lparr> data = Some rs, error = None \<rparr>, b)))"

text \<open>
  Modelled from the spec: one round trip to the collaborators of section 6, each answering
  \<^verbatim>\<open>success | error\<close>. \<open>fault\<close> is what the environment does to the request: \<open>Some e\<close>
  makes the call fail with \<open>e\<close> and without effect on the platform (transport failure,
  outage, refusal); with \<open>None\<close> the platform carries the request out.
\<close>

definition serve :: "request \<Rightarrow> error option \<Rightarrow> backend \<Rightarrow> response \<times> backend" where
  "serve rq fault b =
     (case fault of
        Some e \<Rightarrow> (\<lparr> data = None, error = Some e \<rparr>, b)
      | None \<Rightarrow>
          (case rq of
             Select table column ascending \<Rightarrow> select_ordered table column ascending b
           | StorageUpload bucket key f opts \<Rightarrow> storage_put key f opts b
           | StorageRemove bucket paths \<Rightarrow> storage_remove paths b
           | DeleteEq table column i \<Rightarrow> delete_eq i b))"

section \<open>The page component\<close>

text \<open>
  Each \<^verbatim>\<open>async\<close> handler of the page is suspended while one of its requests is out. The
  program points at which a handler can wait are the tasks: \<^verbatim>\<open>handleUpload\<close> waits for the
  storage write and then for the refresh, \<^verbatim>\<open>handleDelete\<close> for the object removal (holding
  the \<^verbatim>\<open>id\<close> it still needs), the row deletion and the refresh, and the mount effect for
  its fetch.
\<close>

datatype task =
    Upload_put
  | Upload_fetch
  | Delete_remove int
  | Delete_row
  | Delete_fetch
  | Mount_fetch

text \<open>
  Everything the page and its environment hold: the configured base URL of the client, the
  three \<^verbatim>\<open>useState\<close> cells, the value of the file input of the document (\<open>None\<close> when
  \<^verbatim>\<open>querySelector\<close> finds no such element), the lines written with \<^verbatim>\<open>console.error\<close>, the
  platform, every request sent so far in order, and the requests still awaited.
\<close>

record system =
  supabaseUrl :: string
  images :: "ImageData list"
  uploading :: bool
  selectedFile :: "File option"
  fileInput :: "string option"
  console :: "(string \<times> error) list"
  store :: backend
  sent :: "request list"
  pending :: "(task \<times> request) list"

definition setImages :: "ImageData list \<Rightarrow> system \<Rightarrow> system" where
  "setImages d s = s \<lparr> images := d \<rparr>"

definition setUploading :: "bool \<Rightarrow> system \<Rightarrow> system" where
  "setUploading u s = s \<lparr> uploading := u \<rparr>"

definition setSelectedFile :: "File option \<Rightarrow> system \<Rightarrow> system" where
  "setSelectedFile f s = s \<lparr> selectedFile := f \<rparr>"

definition console_error :: "string \<Rightarrow> error \<Rightarrow> system \<Rightarrow> system" where
  "console_error msg e s = s \<lparr> console := console s @ [(msg, e)] \<rparr>"

text \<open>
  \<^verbatim>\<open>const fileInput = document.querySelector('input[type="file"]'); if (fileInput) fileInput.value = ''\<close>
\<close>

definition reset_fileInput :: "system \<Rightarrow> system" where
  "reset_fileInput s = (case fileInput s of None \<Rightarrow> s | Some v \<Rightarrow> s \<lparr> fileInput := Some [] \<rparr>)"

text \<open>
  Modelled from the spec: the URL that \<^verbatim>\<open>publicUrl(bucket, key) -> string\<close> of section 6
  gives, ``string concatenation with a known base'' (section 4.1).
\<close>

definition getPublicUrl :: "string \<Rightarrow> string \<Rightarrow> string \<Rightarrow> string" where
  "getPublicUrl base bucket path = base @ ''/storage/v1/object/public/'' @ bucket @ ''/'' @ path"

text \<open>
  Modelled from the spec: the call \<^verbatim>\<open>supabase.storage.from(bucket).getPublicUrl(path)\<close> of
  the client library, which is not part of the repository (section 4.1: ``pure derivation
  \<dots> no side effects''). Like every other client call it is a step on the whole state, so
  that what it leaves unchanged is a statement about it. The page does not await it: the
  answer \<^verbatim>\<open>data.publicUrl\<close> is there at once, derived from the configured base, the bucket
  and the path, and nothing is sent.
\<close>

definition storage_getPublicUrl :: "string \<Rightarrow> string \<Rightarrow> system \<Rightarrow> string \<times> system" where
  "storage_getPublicUrl bucket path s = (getPublicUrl (supabaseUrl s) bucket path, s)"

text \<open>
  \<^verbatim>\<open>getPublicImageUrl\<close>: the call for the bucket \<^verbatim>\<open>photos\<close>, and \<^verbatim>\<open>return data.publicUrl\<close>.
\<close>

definition getPublicImageUrl :: "string \<Rightarrow> system \<Rightarrow> string \<times> system" where
  "getPublicImageUrl storage_path' s =
     (let (publicUrl, s1) = storage_getPublicUrl ''photos'' storage_path' s
      in (publicUrl, s1))"

text \<open>The helper called \<open>n\<close> times in a row for one path, each call on the state the one before left.\<close>

fun getPublicImageUrl_times :: "nat \<Rightarrow> string \<Rightarrow> system \<Rightarrow> string list \<times> system" where
  "getPublicImageUrl_times 0 storage_path' s = ([], s)"
| "getPublicImageUrl_times (Suc n) storage_path' s =
     (let (publicUrl, s1) = getPublicImageUrl storage_path' s;
          (urls, s2) = getPublicImageUrl_times n storage_path' s1
      in (publicUrl # urls, s2))"

subsection \<open>Handlers, run without interruption\<close>

text \<open>
  An awaited client call: the request is recorded as sent, the platform answers it (or the
  fault does), and the handler goes on with the answer.
\<close>

definition call :: "request \<Rightarrow> error option \<Rightarrow> system \<Rightarrow> response \<times> system" where
  "call rq fault s =
     (let (r, b) = serve rq fault (store s)
      in (r, s \<lparr> store := b, sent := sent s @ [rq] \<rparr>))"

text \<open>\<^verbatim>\<open>supabase.from("images").select("*").order("created_at", { ascending: false })\<close>\<close>

definition fetch_request :: request where
  "fetch_request = Select ''images'' ''created_at'' False"

text \<open>\<^verbatim>\<open>fetchImages\<close> after its await: the error is logged, or \<^verbatim>\<open>setImages(data || [])\<close>.\<close>

definition fetchImages_resume :: "response \<Rightarrow> system \<Rightarrow> system" where
  "fetchImages_resume r s =
     (case error r of
        Some e \<Rightarrow> console_error ''Error fetching images:'' e s
      | None \<Rightarrow> setImages (case data r of Some d \<Rightarrow> d | None \<Rightarrow> []) s)"

definition fetchImages :: "error option \<Rightarrow> system \<Rightarrow> system" where
  "fetchImages fault s =
     (let (r, s1) = call fetch_request fault s
      in fetchImages_resume r s1)"

text \<open>\<^verbatim>\<open>handleFileSelect\<close>: \<^verbatim>\<open>event.target.files?.[0]\<close> is the argument.\<close>

definition handleFileSelect :: "File option \<Rightarrow> system \<Rightarrow> system" where
  "handleFileSelect file s =
     (case file of None \<Rightarrow> s | Some f \<Rightarrow> setSelectedFile (Some f) s)"

text \<open>
  The storage key \<^verbatim>\<open>`${Date.now()}-${selectedFile.name}`\<close> and the options of
  \<^verbatim>\<open>handleUpload\<close>. \<open>now\<close> is \<^verbatim>\<open>Date.now()\<close>, the milliseconds since the epoch, a natural
  number; the template literal renders it, like \<^verbatim>\<open>size.toString()\<close> the size, in decimal
  digits.
\<close>

definition filePath :: "nat \<Rightarrow> File \<Rightarrow> string" where
  "filePath now f = digits now @ ''-'' @ name f"

definition upload_options :: "File \<Rightarrow> FileOptions" where
  "upload_options f =
     \<lparr> cacheControl = ''3600'',
       upsert = False,
       contentType = type' f,
       duplex = ''half'',
       metadata = [(''size'', digits (size' f)), (''filename'', name f)] \<rparr>"

definition upload_request :: "nat \<Rightarrow> File \<Rightarrow> request" where
  "upload_request now f = StorageUpload ''photos'' (filePath now f) f (upload_options f)"

text \<open>
  \<^verbatim>\<open>handleUpload\<close>. The early return stands before the \<^verbatim>\<open>try\<close>, so it skips the
  \<^verbatim>\<open>finally\<close>; every other path ends in \<^verbatim>\<open>setUploading(false)\<close>. \<open>fault_put\<close> and
  \<open>fault_fetch\<close> are the environment's faults for the two requests.
\<close>

definition handleUpload :: "nat \<Rightarrow> error option \<Rightarrow> error option \<Rightarrow> system \<Rightarrow> system" where
  "handleUpload now fault_put fault_fetch s =
     (case selectedFile s of
        None \<Rightarrow> s
      | Some f \<Rightarrow>
          let s1 = setUploading True s;
              (r, s2) = call (upload_request now f) fault_put s1;
              s3 = (case error r of
                      Some e \<Rightarrow> console_error ''Error uploading image:'' e s2
                    | None \<Rightarrow>
                        let s4 = fetchImages fault_fetch s2;
                            s5 = setSelectedFile None s4
                        in reset_fileInput s5)
          in setUploading False s3)"

text \<open>\<^verbatim>\<open>handleDelete\<close>, with one fault for each of its three requests.\<close>

definition handleDelete ::
  "int \<Rightarrow> string \<Rightarrow> error option \<Rightarrow> error option \<Rightarrow> error option \<Rightarrow> system \<Rightarrow> system" where
  "handleDelete i path fault_remove fault_delete fault_fetch s =
     (let (r1, s1) = call (StorageRemove ''photos'' [path]) fault_remove s
      in (case error r1 of
            Some e \<Rightarrow> console_error ''Error deleting image:'' e s1
          | None \<Rightarrow>
              (let (r2, s2) = call (DeleteEq ''images'' ''id'' i) fault_delete s1
               in (case error r2 of
                     Some e \<Rightarrow> console_error ''Error deleting image:'' e s2
                   | None \<Rightarrow> fetchImages fault_fetch s2))))"

subsection \<open>What the page renders\<close>

text \<open>
  One card of the grid: the image source and alternative text, the name shown, the size
  label \<^verbatim>\<open>Math.round(file_size / 1024)\<close>, and the arguments its delete button passes to
  \<^verbatim>\<open>handleDelete\<close>. The relative-time label depends on the wall clock and is left out.
\<close>

record card =
  src :: string
  alt :: string
  title :: string
  size_kb :: nat
  on_delete :: "int \<times> string"

record view =
  input_disabled :: bool
  button_disabled :: bool
  button_label :: string
  cards :: "card list"

text \<open>The card of an image, given the URL that \<^verbatim>\<open>getPublicImageUrl\<close> returned for it.\<close>

definition render_card :: "string \<Rightarrow> ImageData \<Rightarrow> card" where
  "render_card publicUrl img =
     \<lparr> src = publicUrl,
       alt = file_name img,
       title = file_name img,
       size_kb = (file_size img + 512) div 1024,
       on_delete = (id' img, storage_path img) \<rparr>"

text \<open>
  \<^verbatim>\<open>images.map((image) => ...)\<close>: one call of \<^verbatim>\<open>getPublicImageUrl\<close> for each image, in
  order, each on the state the one before left.
\<close>

fun render_cards :: "ImageData list \<Rightarrow> system \<Rightarrow> card list \<times> system" where
  "render_cards [] s = ([], s)"
| "render_cards (img # imgs) s =
     (let (publicUrl, s1) = getPublicImageUrl (storage_path img) s;
          (cs, s2) = render_cards imgs s1
      in (render_card publicUrl img # cs, s2))"

text \<open>
  One rendering of the component, as a step on the state: the controls from the state the
  component was called with, then the cards. \<^verbatim>\<open>PhotoGallery\<close> is what it returns.
\<close>

definition render :: "system \<Rightarrow> view \<times> system" where
  "render s =
     (let (cs, s1) = render_cards (images s) s
      in (\<lparr> input_disabled = uploading s,
            button_disabled = (selectedFile s = None \<or> uploading s),
            button_label = (if uploading s then ''Uploading...'' else ''Upload''),
            cards = cs \<rparr>, s1))"

definition PhotoGallery :: "system \<Rightarrow> view" where
  "PhotoGallery s = fst (render s)"

subsection \<open>Handlers, interleaved\<close>

text \<open>
  The same handlers cut at their awaits. A handler runs up to its next request, which it
  sends and then waits for; the answer resumes it. Between the two, other events of the page
  are handled.
\<close>

definition issue :: "task \<Rightarrow> request \<Rightarrow> system \<Rightarrow> system" where
  "issue t rq s = s \<lparr> sent := sent s @ [rq], pending := pending s @ [(t, rq)] \<rparr>"

definition handleUpload_begin :: "nat \<Rightarrow> system \<Rightarrow> system" where
  "handleUpload_begin now s =
     (case selectedFile s of
        None \<Rightarrow> s
      | Some f \<Rightarrow> issue Upload_put (upload_request now f) (setUploading True s))"

definition handleUpload_after_put :: "response \<Rightarrow> system \<Rightarrow> system" where
  "handleUpload_after_put r s =
     (case error r of
        Some e \<Rightarrow> setUploading False (console_error ''Error uploading image:'' e s)
      | None \<Rightarrow> issue Upload_fetch fetch_request s)"

definition handleUpload_after_fetch :: "response \<Rightarrow> system \<Rightarrow> system" where
  "handleUpload_after_fetch r s =
     setUploading False (reset_fileInput (setSelectedFile None (fetchImages_resume r s)))"

definition handleDelete_begin :: "int \<Rightarrow> string \<Rightarrow> system \<Rightarrow> system" where
  "handleDelete_begin i path s = issue (Delete_remove i) (StorageRemove ''photos'' [path]) s"

definition handleDelete_after_remove :: "int \<Rightarrow> response \<Rightarrow> system \<Rightarrow> system" where
  "handleDelete_after_remove i r s =
     (case error r of
        Some e \<Rightarrow> console_error ''Error deleting image:'' e s
      | None \<Rightarrow> issue Delete_row (DeleteEq ''images'' ''id'' i) s)"

definition handleDelete_after_delete :: "response \<Rightarrow> system \<Rightarrow> system" where
  "handleDelete_after_delete r s =
     (case error r of
        Some e \<Rightarrow> console_error ''Error deleting image:'' e s
      | None \<Rightarrow> issue Delete_fetch fetch_request s)"

fun resume :: "task \<Rightarrow> response \<Rightarrow> system \<Rightarrow> system" where
  "resume Upload_put r s = handleUpload_after_put r s"
| "resume Upload_fetch r s = handleUpload_after_fetch r s"
| "resume (Delete_remove i) r s = handleDelete_after_remove i r s"
| "resume Delete_row r s = handleDelete_after_delete r s"
| "resume Delete_fetch r s = fetchImages_resume r s"
| "resume Mount_fetch r s = fetchImages_resume r s"

text \<open>
  The page as first rendered, and after its mount effect \<^verbatim>\<open>useEffect(() => { fetchImages() }, [])\<close>
  has sent the first fetch.
\<close>

definition initial :: "string \<Rightarrow> backend \<Rightarrow> system" where
  "initial base b =
     \<lparr> supabaseUrl = base, images = [], uploading = False, selectedFile = None,
       fileInput = Some [], console = [], store = b, sent = [], pending = [] \<rparr>"

definition mounted :: "string \<Rightarrow> backend \<Rightarrow> system" where
  "mounted base b = issue Mount_fetch fetch_request (initial base b)"

text \<open>
  What can happen to the mounted page: the user picks a file (or cancels the dialog), clicks
  the upload button at time \<open>now\<close>, clicks the delete button of the \<open>k\<close>-th card, or the
  answer to the \<open>k\<close>-th awaited request arrives, the request having met the given fault or
  none. A disabled control delivers no event to its handler.
\<close>

datatype event =
    SelectFile "File option"
  | ClickUpload nat
  | ClickDelete nat
  | Deliver nat "error option"

definition deliver :: "nat \<Rightarrow> error option \<Rightarrow> system \<Rightarrow> system" where
  "deliver k fault s =
     (if k < length (pending s)
      then
        let (t, rq) = pending s ! k;
            (r, b) = serve rq fault (store s)
        in resume t r (s \<lparr> store := b, pending := take k (pending s) @ drop (Suc k) (pending s) \<rparr>)
      else s)"

definition browser_pick :: "File option \<Rightarrow> system \<Rightarrow> system" where
  "browser_pick file s =
     (case fileInput s of
        None \<Rightarrow> s
      | Some v \<Rightarrow> s \<lparr> fileInput := Some (case file of None \<Rightarrow> [] | Some f \<Rightarrow> name f) \<rparr>)"

fun step :: "event \<Rightarrow> system \<Rightarrow> system" where
  "step (SelectFile file) s =
     (if input_disabled (PhotoGallery s) then s else handleFileSelect file (browser_pick file s))"
| "step (ClickUpload now) s =
     (if button_disabled (PhotoGallery s) then s else handleUpload_begin now s)"
| "step (ClickDelete k) s =
     (if k < length (cards (PhotoGallery s))
      then handleDelete_begin (fst (on_delete (cards (PhotoGallery s) ! k)))
             (snd (on_delete (cards (PhotoGallery s) ! k))) s
      else s)"
| "step (Deliver k fault) s = deliver k fault s"

fun run :: "event list \<Rightarrow> system \<Rightarrow> system" where
  "run [] s = s"
| "run (e # es) s = run es (step e s)"

text \<open>The uploads in flight: the handlers of \<^verbatim>\<open>handleUpload\<close> that have not yet finished.\<close>

fun is_upload :: "task \<Rightarrow> bool" where
  "is_upload Upload_put = True"
| "is_upload Upload_fetch = True"
| "is_upload (Delete_remove i) = False"
| "is_upload Delete_row = False"
| "is_upload Delete_fetch = False"
| "is_upload Mount_fetch = False"

definition uploads_in_flight :: "system \<Rightarrow> nat" where
  "uploads_in_flight s = length (filter (\<lambda>p. is_upload (fst p)) (pending s))"

text \<open>
  The gate of the upload flag: the flag is up exactly while one upload is in flight, and
  no second one is.
\<close>

definition upload_gate :: "system \<Rightarrow> bool" where
  "upload_gate s = (uploads_in_flight s = (if uploading s then 1 else 0))"

section \<open>Scenarios\<close>

text \<open>
  Concrete files, records and platforms on which the theorems below are exercised: the file
  \<^verbatim>\<open>cat.png\<close> of 2048 bytes from the specification's scenario, two stored photos with
  different creation times, and platforms with and without the storage-event hook.
\<close>

definition cat_png :: File where
  "cat_png = \<lparr> name = ''cat.png'', type' = ''image/png'', bytes = replicate 2048 (CHR ''x'') \<rparr>"

definition photo_a :: ImageData where
  "photo_a = \<lparr> id' = 1, created_at = 10, file_name = ''a.png'', file_size = 100,
               url = ''/storage/v1/object/public/photos/10-a.png'', storage_path = ''10-a.png'' \<rparr>"

definition photo_b :: ImageData where
  "photo_b = \<lparr> id' = 2, created_at = 20, file_name = ''b.png'', file_size = 3000,
               url = ''/storage/v1/object/public/photos/20-b.png'', storage_path = ''20-b.png'' \<rparr>"

definition png_object :: StoredObject where
  "png_object = \<lparr> body = ''png'', object_contentType = ''image/png'',
                  object_cacheControl = ''3600'', object_metadata = [] \<rparr>"

definition empty_platform :: backend where
  "empty_platform =
     \<lparr> objects = Map.empty, rows = [], next_id = 1, clock = 30, storage_hook = False \<rparr>"

definition hooked_platform :: backend where
  "hooked_platform =
     \<lparr> objects = Map.empty, rows = [], next_id = 1, clock = 30, storage_hook = True \<rparr>"

definition stocked_platform :: backend where
  "stocked_platform =
     \<lparr> objects = [''10-a.png'' \<mapsto> png_object, ''20-b.png'' \<mapsto> png_object],
       rows = [photo_a, photo_b], next_id = 3, clock = 30, storage_hook = False \<rparr>"

text \<open>A platform on which the key that \<^verbatim>\<open>cat.png\<close> gets at time 1700000000000 is taken.\<close>

definition taken_platform :: backend where
  "taken_platform =
     \<lparr> objects = [''1700000000000-cat.png'' \<mapsto> png_object],
       rows = [], next_id = 1, clock = 30, storage_hook = False \<rparr>"

definition project_url :: string where
  "project_url = ''https://project.supabase.co''"

text \<open>The page with \<^verbatim>\<open>cat.png\<close> chosen, and the page showing the two stored photos.\<close>

definition page_with_cat :: "backend \<Rightarrow> system" where
  "page_with_cat b = (initial project_url b) \<lparr> selectedFile := Some cat_png \<rparr>"

definition stocked_page :: system where
  "stocked_page = (initial project_url stocked_platform) \<lparr> images := [photo_b, photo_a] \<rparr>"

section \<open>Facts about rendering\<close>

lemma getPublicImageUrl_eq:
  "getPublicImageUrl p s = (getPublicUrl (supabaseUrl s) ''photos'' p, s)"
  by (simp add: getPublicImageUrl_def storage_getPublicUrl_def)

lemma render_cards_eq:
  "render_cards imgs s =
     (map (\<lambda>img. render_card (getPublicUrl (supabaseUrl s) ''photos'' (storage_path img)) img) imgs,
      s)"
  by (induction imgs) (simp_all add: getPublicImageUrl_eq)

lemma getPublicImageUrl_times_eq:
  "getPublicImageUrl_times n p s = (replicate n (getPublicUrl (supabaseUrl s) ''photos'' p), s)"
  by (induction n) (simp_all add: getPublicImageUrl_eq)

text \<open>What the component shows, in one expression.\<close>

lemma PhotoGallery_view:
  "PhotoGallery s =
     \<lparr> input_disabled = uploading s,
       button_disabled = (selectedFile s = None \<or> uploading s),
       button_label = (if uploading s then ''Uploading...'' else ''Upload''),
       cards = map (\<lambda>img. render_card (getPublicUrl (supabaseUrl s) ''photos'' (storage_path img)) img)
                 (images s) \<rparr>"
  by (simp add: PhotoGallery_def render_def render_cards_eq)

section \<open>Facts about the platform\<close>

lemma serve_fault: "serve rq (Some e) b = (\<lparr> data = None, error = Some e \<rparr>, b)"
  by (simp add: serve_def)

lemma serve_select:
  "serve (Select ''images'' ''created_at'' asc) None b =
     (\<lparr> data = Some (order_created_at asc (rows b)), error = None \<rparr>, b)"
  by (simp add: serve_def select_ordered_def order_rows_def)

text \<open>A call that answers with an error has changed nothing on the platform.\<close>

lemma serve_error_unchanged:
  assumes "error (fst (serve rq fault b)) = Some e"
  shows "snd (serve rq fault b) = b"
  using assms
  by (auto simp: serve_def select_ordered_def storage_put_def storage_remove_def delete_eq_def Let_def
      split: option.splits request.splits if_splits)

lemma serve_put_free:
  assumes "objects b key = None"
  shows "serve (StorageUpload bucket key f opts) None b =
     (\<lparr> data = None, error = None \<rparr>,
      if storage_hook b
      then b \<lparr> objects := (objects b)(key \<mapsto> \<lparr> body = bytes f, object_contentType = contentType opts,
                    object_cacheControl = cacheControl opts, object_metadata = metadata opts \<rparr>),
               rows := rows b @ [hook_record b key opts],
               next_id := next_id b + 1,
               clock := Suc (clock b) \<rparr>
      else b \<lparr> objects := (objects b)(key \<mapsto> \<lparr> body = bytes f, object_contentType = contentType opts,
                    object_cacheControl = cacheControl opts, object_metadata = metadata opts \<rparr>) \<rparr>)"
  using assms by (simp add: serve_def storage_put_def Let_def)

lemma serve_put_taken:
  assumes "objects b key = Some ob" and "\<not> upsert opts"
  shows "serve (StorageUpload bucket key f opts) None b =
     (\<lparr> data = None, error = Some (ResourceExists key) \<rparr>, b)"
  using assms by (simp add: serve_def storage_put_def)

lemma serve_remove:
  "serve (StorageRemove bucket paths) None b =
     (\<lparr> data = None, error = None \<rparr>,
      b \<lparr> objects := (\<lambda>k. if k \<in> set paths then None else objects b k) \<rparr>)"
  by (simp add: serve_def storage_remove_def)

lemma serve_delete:
  "serve (DeleteEq table column i) None b =
     (\<lparr> data = None, error = None \<rparr>, b \<lparr> rows := filter (\<lambda>r. id' r \<noteq> i) (rows b) \<rparr>)"
  by (simp add: serve_def delete_eq_def)

subsection \<open>Decimal rendering\<close>

lemma digits_small: "n < 10 \<Longrightarrow> digits n = [digit_char n]"
  by (subst digits.simps) simp

lemma digits_large: "\<not> n < 10 \<Longrightarrow> digits n = digits (n div 10) @ [digit_char (n mod 10)]"
  by (subst digits.simps) simp

lemma digits_nonempty: "digits n \<noteq> []"
  by (subst digits.simps) simp

lemma below_ten:
  "(d::nat) < 10 \<Longrightarrow>
   d = 0 \<or> d = 1 \<or> d = 2 \<or> d = 3 \<or> d = 4 \<or> d = 5 \<or> d = 6 \<or> d = 7 \<or> d = 8 \<or> d = 9"
  by arith

lemma of_char_digit: "d < 10 \<Longrightarrow> (of_char (digit_char d) :: nat) = 48 + d"
  using below_ten [of d] by (auto simp: digit_char_def)

lemma is_digit_digit_char: "d < 10 \<Longrightarrow> is_digit (digit_char d)"
  by (simp add: is_digit_def of_char_digit)

lemma parse_digits_append:
  "parse_digits acc (xs @ ys) =
     (case parse_digits acc xs of None \<Rightarrow> None | Some a \<Rightarrow> parse_digits a ys)"
  by (induction xs arbitrary: acc) auto

lemma parse_digits_digits: "parse_digits 0 (digits n) = Some n"
proof (induction n rule: digits.induct)
  case (1 n)
  show ?case
  proof (cases "n < 10")
    case True
    then show ?thesis by (simp add: digits_small is_digit_digit_char of_char_digit)
  next
    case False
    with 1 have "parse_digits 0 (digits (n div 10)) = Some (n div 10)" by simp
    with False show ?thesis
      by (simp add: digits_large parse_digits_append is_digit_digit_char of_char_digit)
  qed
qed

text \<open>The size written into the metadata reads back as the size.\<close>

lemma parse_nat_digits: "parse_nat (digits n) = Some n"
  by (simp add: parse_nat_def digits_nonempty parse_digits_digits)

lemma digits_all_digits: "\<forall>c \<in> set (digits n). is_digit c"
proof (induction n rule: digits.induct)
  case (1 n)
  show ?case
  proof (cases "n < 10")
    case True
    then show ?thesis by (simp add: digits_small is_digit_digit_char)
  next
    case False
    with 1 show ?thesis by (simp add: digits_large is_digit_digit_char)
  qed
qed

subsection \<open>Ordering of the listing\<close>

lemma sorted_wrt_desc_sort_key:
  "sorted_wrt (\<lambda>a b. created_at b \<le> created_at a) (rev (sort_key created_at rs))"
proof -
  have "sorted (map created_at (sort_key created_at rs))" by (rule sorted_sort_key)
  then have "sorted_wrt (\<lambda>a b. created_at a \<le> created_at b) (sort_key created_at rs)"
    by (simp add: sorted_map)
  then show ?thesis by (simp add: sorted_wrt_rev)
qed

lemma sorted_wrt_strict:
  "sorted_wrt (\<lambda>a b. f b \<le> (f a :: nat)) xs \<Longrightarrow> distinct (map f xs) \<Longrightarrow>
   sorted_wrt (\<lambda>a b. f b < f a) xs"
proof (induction xs)
  case Nil
  then show ?case by simp
next
  case (Cons a xs)
  have "f x < f a" if "x \<in> set xs" for x
  proof -
    from Cons.prems(1) that have "f x \<le> f a" by simp
    moreover from Cons.prems(2) have "f a \<notin> f ` set xs" by simp
    with that have "f x \<noteq> f a" by (metis imageI)
    ultimately show ?thesis by simp
  qed
  with Cons show ?case by simp
qed

lemma strict_desc_sort_key:
  assumes "distinct (map created_at rs)"
  shows "sorted_wrt (\<lambda>a b. created_at b < created_at a) (rev (sort_key created_at rs))"
proof -
  from assms have "distinct (map created_at (rev (sort_key created_at rs)))"
    by (simp add: distinct_map)
  with sorted_wrt_desc_sort_key [of rs] show ?thesis
    by (rule sorted_wrt_strict)
qed

section \<open>Facts about the handlers\<close>

lemma fetchImages_ok:
  "fetchImages None s =
     s \<lparr> images := order_created_at False (rows (store s)), sent := sent s @ [fetch_request] \<rparr>"
  by (simp add: fetchImages_def call_def fetch_request_def serve_select fetchImages_resume_def
      setImages_def)

lemma fetchImages_failed:
  "fetchImages (Some e) s =
     s \<lparr> console := console s @ [(''Error fetching images:'', e)],
         sent := sent s @ [fetch_request] \<rparr>"
  by (simp add: fetchImages_def call_def serve_fault fetchImages_resume_def console_error_def)

lemma handleUpload_failed:
  assumes "selectedFile s = Some f"
    and "error (fst (serve (upload_request now f) fp (store s))) = Some e"
  shows "handleUpload now fp ff s =
     s \<lparr> uploading := False,
         console := console s @ [(''Error uploading image:'', e)],
         sent := sent s @ [upload_request now f] \<rparr>"
proof -
  obtain r b where rb: "serve (upload_request now f) fp (store s) = (r, b)"
    by (cases "serve (upload_request now f) fp (store s)")
  with assms(2) have e: "error r = Some e" by simp
  from serve_error_unchanged [OF assms(2)] rb have b: "b = store s" by simp
  show ?thesis
    using assms(1) rb e b
    by (simp add: handleUpload_def call_def setUploading_def console_error_def)
qed

lemma handleUpload_succeeded:
  assumes "selectedFile s = Some f"
    and "serve (upload_request now f) fp (store s) = (r, b)"
    and "error r = None"
  shows "handleUpload now fp ff s =
     setUploading False (reset_fileInput (setSelectedFile None
       (fetchImages ff
          (s \<lparr> uploading := True, store := b, sent := sent s @ [upload_request now f] \<rparr>))))"
  using assms by (simp add: handleUpload_def call_def setUploading_def)

lemma handleDelete_remove_failed:
  "handleDelete i p (Some e) fd ff s =
     s \<lparr> console := console s @ [(''Error deleting image:'', e)],
         sent := sent s @ [StorageRemove ''photos'' [p]] \<rparr>"
  by (simp add: handleDelete_def call_def serve_fault console_error_def)

lemma handleDelete_row_failed:
  "handleDelete i p None (Some e) ff s =
     s \<lparr> store := (store s) \<lparr> objects := (\<lambda>k. if k \<in> set [p] then None else objects (store s) k) \<rparr>,
         console := console s @ [(''Error deleting image:'', e)],
         sent := sent s @ [StorageRemove ''photos'' [p], DeleteEq ''images'' ''id'' i] \<rparr>"
  by (simp add: handleDelete_def call_def serve_fault serve_remove console_error_def)

lemma handleDelete_succeeded:
  "handleDelete i p None None ff s =
     fetchImages ff
       (s \<lparr> store := (store s)
               \<lparr> objects := (\<lambda>k. if k \<in> set [p] then None else objects (store s) k),
                 rows := filter (\<lambda>r. id' r \<noteq> i) (rows (store s)) \<rparr>,
            sent := sent s @ [StorageRemove ''photos'' [p], DeleteEq ''images'' ''id'' i] \<rparr>)"
  by (simp add: handleDelete_def call_def serve_remove serve_delete)

lemma store_fetchImages: "store (fetchImages ff s) = store s"
  by (cases ff) (simp_all add: fetchImages_ok fetchImages_failed)

lemma sent_fetchImages: "sent (fetchImages ff s) = sent s @ [fetch_request]"
  by (cases ff) (simp_all add: fetchImages_ok fetchImages_failed)

lemma length_order_created_at: "length (order_created_at asc rs) = length rs"
  by (simp add: order_created_at_def)

lemma set_order_created_at: "set (order_created_at asc rs) = set rs"
  by (simp add: order_created_at_def)

lemma reset_fileInput_keeps [simp]:
  "store (reset_fileInput s) = store s" "sent (reset_fileInput s) = sent s"
  "uploading (reset_fileInput s) = uploading s" "images (reset_fileInput s) = images s"
  "selectedFile (reset_fileInput s) = selectedFile s" "console (reset_fileInput s) = console s"
  by (simp_all add: reset_fileInput_def split: option.splits)

text \<open>The hook reads the name and the size back from the metadata the page attaches.\<close>

lemma hook_record_fields:
  "file_name (hook_record b key (upload_options f)) = name f"
  "file_size (hook_record b key (upload_options f)) = size' f"
  "storage_path (hook_record b key (upload_options f)) = key"
  by (simp_all add: hook_record_def upload_options_def parse_nat_digits)

lemma handleUpload_accepted:
  assumes "selectedFile s = Some f" and "objects (store s) (filePath now f) = None"
  shows "store (handleUpload now None ff s) = snd (serve (upload_request now f) None (store s))"
    and "sent (handleUpload now None ff s) = sent s @ [upload_request now f, fetch_request]"
    and "selectedFile (handleUpload now None ff s) = None"
    and "\<not> uploading (handleUpload now None ff s)"
    and "console (handleUpload now None None s) = console s"
proof -
  obtain r b where rb: "serve (upload_request now f) None (store s) = (r, b)"
    by (cases "serve (upload_request now f) None (store s)")
  with assms(2) have e: "error r = None"
    by (auto simp: upload_request_def serve_put_free)
  note h = handleUpload_succeeded [OF assms(1) rb e]
  show "store (handleUpload now None ff s) = snd (serve (upload_request now f) None (store s))"
    by (simp add: h rb setUploading_def setSelectedFile_def store_fetchImages)
  show "sent (handleUpload now None ff s) = sent s @ [upload_request now f, fetch_request]"
    by (simp add: h setUploading_def setSelectedFile_def sent_fetchImages)
  show "selectedFile (handleUpload now None ff s) = None"
    by (simp add: h setUploading_def setSelectedFile_def)
  show "\<not> uploading (handleUpload now None ff s)"
    by (simp add: h setUploading_def)
  show "console (handleUpload now None None s) = console s"
    by (simp add: h setUploading_def setSelectedFile_def fetchImages_ok)
qed

subsection \<open>Facts about the scenarios\<close>

lemma cat_png_fields:
  "name cat_png = ''cat.png''" "type' cat_png = ''image/png''" "size' cat_png = 2048"
  by (simp_all add: cat_png_def size'_def)

lemma digits_2048: "digits 2048 = ''2048''"
  by (simp add: digits_small digits_large digit_char_def)

lemma digits_now: "digits 1700000000000 = ''1700000000000''"
  by (simp add: digits_small digits_large digit_char_def)

lemma listing_stocked: "order_created_at False [photo_a, photo_b] = [photo_b, photo_a]"
  by (simp add: order_created_at_def photo_a_def photo_b_def)

text \<open>
  The store orders by what the request names: of the same two rows, the older one given
  the higher id, the newer comes first when the order is by \<^verbatim>\<open>created_at\<close> and the older
  when it is by \<^verbatim>\<open>id\<close>, both not ascending; a select that names another table or no
  column is refused.
\<close>

lemma listing_by_column:
  "order_rows ''created_at'' False [photo_a \<lparr> id' := 5 \<rparr>, photo_b] =
     Some [photo_b, photo_a \<lparr> id' := 5 \<rparr>]"
  "order_rows ''id'' False [photo_a \<lparr> id' := 5 \<rparr>, photo_b] =
     Some [photo_a \<lparr> id' := 5 \<rparr>, photo_b]"
  by (simp_all add: order_rows_def order_created_at_def direction_def photo_a_def photo_b_def)

lemma select_refused:
  "serve (Select [] [] False) None b = (\<lparr> data = None, error = Some (UnknownRelation []) \<rparr>, b)"
  "serve (Select ''images'' [] False) None b =
     (\<lparr> data = None, error = Some (UnknownColumn []) \<rparr>, b)"
  by (simp_all add: serve_def select_ordered_def order_rows_def)

section \<open>The interleaved handlers and the uninterrupted ones\<close>

text \<open>
  A handler that runs on a page with nothing else in flight, and whose answers arrive
  before any other event, does what the uninterrupted handler does.
\<close>

lemma deliver_idle: "pending s = [] \<Longrightarrow> deliver k fault s = s"
  by (simp add: deliver_def)

lemma deliver_single:
  assumes "pending s = [(t, rq)]"
  shows "deliver 0 fault s =
     resume t (fst (serve rq fault (store s)))
       (s \<lparr> store := snd (serve rq fault (store s)), pending := [] \<rparr>)"
  using assms by (simp add: deliver_def split_beta)

lemma fetchImages_split:
  "fetchImages ff s =
     fetchImages_resume (fst (serve fetch_request ff (store s)))
       (s \<lparr> store := snd (serve fetch_request ff (store s)), sent := sent s @ [fetch_request] \<rparr>)"
  by (simp add: fetchImages_def call_def split_beta)

lemma no_pending: "pending s = [] \<Longrightarrow> s \<lparr> pending := [] \<rparr> = s"
  by (cases s) simp

lemma pending_last:
  "pending s = [] \<Longrightarrow>
   s \<lparr> uploading := u, sent := x, store := b, pending := [] \<rparr> = s \<lparr> uploading := u, store := b, sent := x \<rparr>"
  "pending s = [] \<Longrightarrow> s \<lparr> sent := x, store := b, pending := [] \<rparr> = s \<lparr> store := b, sent := x \<rparr>"
  "pending s = [] \<Longrightarrow> s \<lparr> sent := x, pending := [] \<rparr> = s \<lparr> sent := x \<rparr>"
  by (cases s; simp)+

lemma handleUpload_uninterrupted:
  assumes "pending s = []" and "\<not> uploading s"
  shows "run [ClickUpload now, Deliver 0 fp, Deliver 0 ff] s = handleUpload now fp ff s"
proof (cases "selectedFile s")
  case None
  with assms show ?thesis
    by (simp add: PhotoGallery_view deliver_idle handleUpload_def)
next
  case (Some f)
  let ?rq = "upload_request now f"
  obtain r b where rb: "serve ?rq fp (store s) = (r, b)"
    by (cases "serve ?rq fp (store s)")
  have c: "step (ClickUpload now) s =
      s \<lparr> uploading := True, sent := sent s @ [?rq], pending := [(Upload_put, ?rq)] \<rparr>"
    using assms Some
    by (simp add: PhotoGallery_view handleUpload_begin_def issue_def setUploading_def)
  show ?thesis
  proof (cases "error r")
    case (Some e)
    with rb have e: "error (fst (serve ?rq fp (store s))) = Some e" by simp
    from serve_error_unchanged [OF e] rb have b: "b = store s" by simp
    have "deliver 0 fp (step (ClickUpload now) s) =
        s \<lparr> uploading := False, console := console s @ [(''Error uploading image:'', e)],
            sent := sent s @ [?rq] \<rparr>"
      using assms rb Some b
      by (simp add: c deliver_single handleUpload_after_put_def setUploading_def console_error_def
          del: step.simps(2))
    with assms show ?thesis
      by (simp add: deliver_idle handleUpload_failed [OF \<open>selectedFile s = Some f\<close> e]
          del: step.simps(2))
  next
    case None
    have d: "deliver 0 fp (step (ClickUpload now) s) =
        s \<lparr> uploading := True, store := b, sent := sent s @ [?rq, fetch_request],
            pending := [(Upload_fetch, fetch_request)] \<rparr>"
      using assms rb None
      by (simp add: c deliver_single handleUpload_after_put_def issue_def del: step.simps(2))
    show ?thesis
      using assms
      by (simp add: d deliver_single handleUpload_after_fetch_def
          handleUpload_succeeded [OF \<open>selectedFile s = Some f\<close> rb None] fetchImages_split
          pending_last del: step.simps(2))
  qed
qed


lemma handleDelete_uninterrupted:
  assumes "pending s = []"
  shows "deliver 0 ff (deliver 0 fd (deliver 0 fr (handleDelete_begin i p s))) =
         handleDelete i p fr fd ff s"
proof -
  let ?rq = "StorageRemove ''photos'' [p]"
  let ?dq = "DeleteEq ''images'' ''id'' i"
  obtain r1 b1 where s1: "serve ?rq fr (store s) = (r1, b1)"
    by (cases "serve ?rq fr (store s)")
  obtain r2 b2 where s2: "serve ?dq fd b1 = (r2, b2)"
    by (cases "serve ?dq fd b1")
  show ?thesis
  proof (cases "error r1")
    case (Some e)
    with assms s1 show ?thesis
      by (simp add: handleDelete_begin_def issue_def deliver_single deliver_idle
          handleDelete_after_remove_def console_error_def handleDelete_def call_def pending_last)
  next
    case None
    note n1 = None
    show ?thesis
    proof (cases "error r2")
      case (Some e)
      with assms s1 s2 n1 show ?thesis
        by (simp add: handleDelete_begin_def issue_def deliver_single deliver_idle
            handleDelete_after_remove_def handleDelete_after_delete_def console_error_def
            handleDelete_def call_def pending_last)
    next
      case None
      with assms s1 s2 n1 show ?thesis
        by (simp add: handleDelete_begin_def issue_def deliver_single deliver_idle
            handleDelete_after_remove_def handleDelete_after_delete_def console_error_def
            handleDelete_def call_def fetchImages_split pending_last)
    qed
  qed
qed

lemma fetchImages_on_mount:
  "deliver 0 ff (mounted base b) = fetchImages ff (initial base b)"
  by (simp add: mounted_def issue_def deliver_single fetchImages_split initial_def)

section \<open>The upload gate\<close>

text \<open>
  Every event keeps the gate: removing an awaited request from the list lowers the count
  of uploads in flight exactly when the request belonged to an upload, and each
  continuation then restores the balance between the count and the flag.
\<close>

lemma filter_without_nth:
  assumes "k < length xs"
  shows "length (filter P (take k xs @ drop (Suc k) xs)) + (if P (xs ! k) then 1 else 0)
         = length (filter P xs)"
proof -
  from assms have "xs = take k xs @ xs ! k # drop (Suc k) xs"
    by (rule id_take_nth_drop)
  then have "length (filter P xs) = length (filter P (take k xs @ xs ! k # drop (Suc k) xs))"
    by simp
  then show ?thesis by simp
qed

lemma flight_fetchImages_resume [simp]:
  "uploads_in_flight (fetchImages_resume r s) = uploads_in_flight s"
  "uploading (fetchImages_resume r s) = uploading s"
  by (simp_all add: uploads_in_flight_def fetchImages_resume_def console_error_def setImages_def
      split: option.splits)

lemma gate_resume:
  assumes "uploads_in_flight s + (if is_upload t then 1 else 0) = (if uploading s then 1 else 0)"
  shows "upload_gate (resume t r s)"
proof (cases t)
  case Upload_put
  with assms show ?thesis
    by (auto simp: upload_gate_def handleUpload_after_put_def uploads_in_flight_def issue_def
        setUploading_def console_error_def split: option.splits if_splits)
next
  case Upload_fetch
  with assms show ?thesis
    by (auto simp: upload_gate_def handleUpload_after_fetch_def uploads_in_flight_def
        setUploading_def setSelectedFile_def reset_fileInput_def fetchImages_resume_def
        console_error_def setImages_def split: option.splits if_splits)
next
  case (Delete_remove i)
  with assms show ?thesis
    by (auto simp: upload_gate_def handleDelete_after_remove_def uploads_in_flight_def
        console_error_def issue_def split: option.splits if_splits)
next
  case Delete_row
  with assms show ?thesis
    by (auto simp: upload_gate_def handleDelete_after_delete_def uploads_in_flight_def
        console_error_def issue_def split: option.splits if_splits)
next
  case Delete_fetch
  with assms show ?thesis by (simp add: upload_gate_def)
next
  case Mount_fetch
  with assms show ?thesis by (simp add: upload_gate_def)
qed

lemma gate_deliver:
  assumes "upload_gate s"
  shows "upload_gate (deliver k fault s)"
proof (cases "k < length (pending s)")
  case False
  with assms show ?thesis by (simp add: deliver_def)
next
  case True
  obtain t rq where p: "pending s ! k = (t, rq)" by (cases "pending s ! k")
  obtain r b where rb: "serve rq fault (store s) = (r, b)" by (cases "serve rq fault (store s)")
  let ?s1 = "s \<lparr> store := b, pending := take k (pending s) @ drop (Suc k) (pending s) \<rparr>"
  from filter_without_nth [OF True, of "\<lambda>p. is_upload (fst p)"] p
  have "uploads_in_flight ?s1 + (if is_upload t then 1 else 0) = uploads_in_flight s"
    by (simp add: uploads_in_flight_def)
  with assms have "uploads_in_flight ?s1 + (if is_upload t then 1 else 0) = (if uploading ?s1 then 1 else 0)"
    by (simp add: upload_gate_def)
  then have "upload_gate (resume t r ?s1)" by (rule gate_resume)
  with True p rb show ?thesis by (simp add: deliver_def)
qed

lemma gate_step:
  assumes "upload_gate s"
  shows "upload_gate (step e s)"
proof (cases e)
  case (SelectFile chosen)
  with assms show ?thesis
    by (auto simp: upload_gate_def uploads_in_flight_def handleFileSelect_def browser_pick_def
        setSelectedFile_def split: option.splits)
next
  case (ClickUpload now)
  with assms show ?thesis
    by (auto simp: upload_gate_def PhotoGallery_view handleUpload_begin_def
        setUploading_def uploads_in_flight_def issue_def split: option.splits)
next
  case (ClickDelete k)
  with assms show ?thesis
    by (auto simp: upload_gate_def handleDelete_begin_def uploads_in_flight_def issue_def)
next
  case (Deliver k fault)
  with assms show ?thesis by (simp add: gate_deliver)
qed

lemma gate_run: "upload_gate s \<Longrightarrow> upload_gate (run evs s)"
  by (induction evs arbitrary: s) (simp_all add: gate_step)

lemma gate_mounted: "upload_gate (mounted base b)"
  by (simp add: upload_gate_def mounted_def initial_def issue_def uploads_in_flight_def)

lemma handleUpload_lowers_flag:
  assumes "selectedFile t = Some f"
  shows "\<not> uploading (handleUpload now fp ff t)"
proof (cases "error (fst (serve (upload_request now f) fp (store t)))")
  case (Some e)
  then show ?thesis by (simp add: handleUpload_failed [OF assms])
next
  case None
  obtain r b where rb: "serve (upload_request now f) fp (store t) = (r, b)"
    by (cases "serve (upload_request now f) fp (store t)")
  with None have "error r = None" by simp
  from handleUpload_succeeded [OF assms rb this] show ?thesis
    by (simp add: setUploading_def)
qed


subsection \<open>Two runs of the page\<close>

text \<open>
  The first fetch is answered, \<^verbatim>\<open>cat.png\<close> is picked and the upload button clicked; then
  the write and the refresh are answered.
\<close>

lemma in_flight_state:
  "run [Deliver 0 None, SelectFile (Some cat_png), ClickUpload 1700000000000]
     (mounted project_url hooked_platform) =
   \<lparr> supabaseUrl = project_url, images = [], uploading = True, selectedFile = Some cat_png,
     fileInput = Some ''cat.png'', console = [], store = hooked_platform,
     sent = [fetch_request, upload_request 1700000000000 cat_png],
     pending = [(Upload_put, upload_request 1700000000000 cat_png)] \<rparr>"
  by (simp add: mounted_def initial_def issue_def deliver_def fetch_request_def serve_select
      PhotoGallery_view browser_pick_def handleFileSelect_def setSelectedFile_def setUploading_def
      handleUpload_begin_def fetchImages_resume_def setImages_def order_created_at_def
      cat_png_fields)
    (simp add: hooked_platform_def)


lemma run_append: "run (es @ fs) s = run fs (run es s)"
  by (induction es arbitrary: s) simp_all

lemma finished_state:
  "run [Deliver 0 None, SelectFile (Some cat_png), ClickUpload 1700000000000,
        Deliver 0 None, Deliver 0 None]
     (mounted project_url hooked_platform) =
   \<lparr> supabaseUrl = project_url,
     images = [hook_record hooked_platform (filePath 1700000000000 cat_png) (upload_options cat_png)],
     uploading = False, selectedFile = None, fileInput = Some [], console = [],
     store = hooked_platform
       \<lparr> objects := [filePath 1700000000000 cat_png \<mapsto>
            \<lparr> body = bytes cat_png, object_contentType = contentType (upload_options cat_png),
              object_cacheControl = cacheControl (upload_options cat_png),
              object_metadata = metadata (upload_options cat_png) \<rparr>],
         rows := [hook_record hooked_platform (filePath 1700000000000 cat_png) (upload_options cat_png)],
         next_id := 2, clock := 31 \<rparr>,
     sent = [fetch_request, upload_request 1700000000000 cat_png, fetch_request],
     pending = [] \<rparr>"
proof -
  have k: "objects hooked_platform (filePath 1700000000000 cat_png) = None"
    "storage_hook hooked_platform" "rows hooked_platform = []"
    "next_id hooked_platform = 1" "clock hooked_platform = 30"
    "objects hooked_platform = Map.empty"
    by (simp_all add: hooked_platform_def)
  have a: "run [Deliver 0 None, SelectFile (Some cat_png), ClickUpload 1700000000000,
        Deliver 0 None, Deliver 0 None] (mounted project_url hooked_platform) =
      run [Deliver 0 None, Deliver 0 None]
        (run [Deliver 0 None, SelectFile (Some cat_png), ClickUpload 1700000000000]
           (mounted project_url hooked_platform))"
    by (simp only: run_append [symmetric] append.simps)
  show ?thesis
    apply (simp only: a in_flight_state)
    apply (simp add: deliver_def upload_request_def serve_put_free k handleUpload_after_put_def
        issue_def fetch_request_def serve_select handleUpload_after_fetch_def
        fetchImages_resume_def setImages_def setSelectedFile_def reset_fileInput_def
        setUploading_def order_created_at_def)
    done
qed



section \<open>Claims\<close>

text \<open>
  C1, as amended. \<^verbatim>\<open>handleUpload\<close> with a file selected and the storage write accepted
  sends exactly two requests, the write and the refresh, and no insert into the table. The
  table gains a row only through the platform's storage-event hook: with the hook the rows
  grow by the one record made from the attached metadata, whose \<^verbatim>\<open>file_name\<close> and
  \<^verbatim>\<open>file_size\<close> are the file's name and size, and the next successful \<^verbatim>\<open>fetchImages\<close>
  returns one record more and contains it; without the hook the rows and the count returned
  stay as they were.
\<close>

theorem handleUpload_record_by_hook_only:
  assumes "selectedFile s = Some f"
    and "objects (store s) (filePath now f) = None"
  shows "sent (handleUpload now None fault_fetch s) = sent s @ [upload_request now f, fetch_request]
    \<and> rows (store (handleUpload now None fault_fetch s)) =
        (if storage_hook (store s)
         then rows (store s) @ [hook_record (store s) (filePath now f) (upload_options f)]
         else rows (store s))
    \<and> file_name (hook_record (store s) (filePath now f) (upload_options f)) = name f
    \<and> file_size (hook_record (store s) (filePath now f) (upload_options f)) = size' f
    \<and> length (images (fetchImages None (handleUpload now None fault_fetch s))) =
        length (images (fetchImages None s)) + (if storage_hook (store s) then 1 else 0)
    \<and> (storage_hook (store s) \<longrightarrow>
         hook_record (store s) (filePath now f) (upload_options f)
           \<in> set (images (fetchImages None (handleUpload now None fault_fetch s))))"
proof -
  have r: "rows (store (handleUpload now None fault_fetch s)) =
        (if storage_hook (store s)
         then rows (store s) @ [hook_record (store s) (filePath now f) (upload_options f)]
         else rows (store s))"
    using assms(2)
    by (simp add: handleUpload_accepted(1) [OF assms] upload_request_def serve_put_free)
  show ?thesis
    by (simp add: handleUpload_accepted(2) [OF assms] r hook_record_fields fetchImages_ok
        length_order_created_at set_order_created_at)
qed

theorem handleUpload_record_by_hook_only_witness:
  "selectedFile (page_with_cat hooked_platform) = Some cat_png
   \<and> objects (store (page_with_cat hooked_platform)) (filePath 1700000000000 cat_png) = None
   \<and> rows (store (handleUpload 1700000000000 None None (page_with_cat hooked_platform))) =
       [\<lparr> id' = 1, created_at = 30, file_name = ''cat.png'', file_size = 2048,
          url = ''/storage/v1/object/public/photos/1700000000000-cat.png'',
          storage_path = ''1700000000000-cat.png'' \<rparr>]
   \<and> length (images (fetchImages None
         (handleUpload 1700000000000 None None (page_with_cat hooked_platform)))) = 1
   \<and> length (images (fetchImages None (page_with_cat hooked_platform))) = 0"
proof -
  have f: "selectedFile (page_with_cat hooked_platform) = Some cat_png"
    by (simp add: page_with_cat_def initial_def)
  have k: "objects (store (page_with_cat hooked_platform)) (filePath 1700000000000 cat_png) = None"
    by (simp add: page_with_cat_def initial_def hooked_platform_def)
  have s: "store (page_with_cat hooked_platform) = hooked_platform"
    by (simp add: page_with_cat_def initial_def)
  have h: "hook_record hooked_platform (filePath 1700000000000 cat_png) (upload_options cat_png) =
       \<lparr> id' = 1, created_at = 30, file_name = ''cat.png'', file_size = 2048,
          url = ''/storage/v1/object/public/photos/1700000000000-cat.png'',
          storage_path = ''1700000000000-cat.png'' \<rparr>"
    by (simp add: hook_record_def upload_options_def cat_png_fields parse_nat_digits filePath_def
        digits_now hooked_platform_def)
  have e: "rows hooked_platform = []" "storage_hook hooked_platform"
    by (simp_all add: hooked_platform_def)
  from handleUpload_record_by_hook_only [OF f k, of None] f k
  show ?thesis
    by (simp add: s h e fetchImages_ok length_order_created_at)
qed

text \<open>
  C1 as stated fails on a platform without the hook: \<^verbatim>\<open>cat.png\<close> is uploaded without any
  error, the selection is cleared, and the next listing still returns no record.
\<close>

theorem handleUpload_count_counterexample:
  "selectedFile (page_with_cat empty_platform) = Some cat_png
   \<and> console (handleUpload 1700000000000 None None (page_with_cat empty_platform)) = []
   \<and> selectedFile (handleUpload 1700000000000 None None (page_with_cat empty_platform)) = None
   \<and> length (images (fetchImages None (page_with_cat empty_platform))) = 0
   \<and> length (images (fetchImages None
        (handleUpload 1700000000000 None None (page_with_cat empty_platform)))) \<noteq>
      length (images (fetchImages None (page_with_cat empty_platform))) + 1"
proof -
  have f: "selectedFile (page_with_cat empty_platform) = Some cat_png"
    by (simp add: page_with_cat_def initial_def)
  have k: "objects (store (page_with_cat empty_platform)) (filePath 1700000000000 cat_png) = None"
    by (simp add: page_with_cat_def initial_def empty_platform_def)
  have r: "rows (store (handleUpload 1700000000000 None None (page_with_cat empty_platform))) = []"
    using k
    by (simp add: handleUpload_accepted(1) [OF f k] upload_request_def serve_put_free)
       (simp add: page_with_cat_def initial_def empty_platform_def)
  have c: "console (handleUpload 1700000000000 None None (page_with_cat empty_platform)) = []"
    by (simp add: handleUpload_accepted(5) [OF f k]) (simp add: page_with_cat_def initial_def)
  show ?thesis
    using f c r handleUpload_accepted(3) [OF f k]
    by (simp add: fetchImages_ok order_created_at_def)
       (simp add: page_with_cat_def initial_def empty_platform_def)
qed

text \<open>
  C2. When \<^verbatim>\<open>handleDelete\<close> is called for a stored record, the object removal succeeds and
  the row deletion fails, the handler stops after those two requests: the object is gone,
  the rows are as before, nothing is sent to undo the removal or to refresh, the failure is
  one console line, and a later \<^verbatim>\<open>fetchImages\<close> still returns the record, whose object is
  now missing. Whatever else the page is doing meanwhile, the handler resumed with the
  failed deletion only writes that line.
\<close>

theorem handleDelete_dangling_row:
  assumes "r \<in> set (rows (store s))"
  shows "handleDelete (id' r) (storage_path r) None (Some e) fault_fetch s =
           s \<lparr> store := (store s)
                   \<lparr> objects := (\<lambda>k. if k \<in> set [storage_path r] then None else objects (store s) k) \<rparr>,
               console := console s @ [(''Error deleting image:'', e)],
               sent := sent s @ [StorageRemove ''photos'' [storage_path r],
                                 DeleteEq ''images'' ''id'' (id' r)] \<rparr>
         \<and> rows (store (handleDelete (id' r) (storage_path r) None (Some e) fault_fetch s))
             = rows (store s)
         \<and> objects (store (handleDelete (id' r) (storage_path r) None (Some e) fault_fetch s))
             (storage_path r) = None
         \<and> r \<in> set (images (fetchImages None
                 (handleDelete (id' r) (storage_path r) None (Some e) fault_fetch s)))
         \<and> (error answer = Some e \<longrightarrow>
              handleDelete_after_delete answer t =
                t \<lparr> console := console t @ [(''Error deleting image:'', e)] \<rparr>)"
  using assms
  by (simp add: handleDelete_row_failed fetchImages_ok order_created_at_def
      handleDelete_after_delete_def console_error_def)

theorem handleDelete_dangling_row_witness:
  "photo_a \<in> set (rows (store stocked_page))
   \<and> objects (store stocked_page) ''10-a.png'' = Some png_object
   \<and> objects (store (handleDelete 1 ''10-a.png'' None (Some (TransportError ''offline'')) None stocked_page))
        ''10-a.png'' = None
   \<and> images (fetchImages None
        (handleDelete 1 ''10-a.png'' None (Some (TransportError ''offline'')) None stocked_page))
       = [photo_b, photo_a]
   \<and> sent (handleDelete 1 ''10-a.png'' None (Some (TransportError ''offline'')) None stocked_page)
       = [StorageRemove ''photos'' [''10-a.png''], DeleteEq ''images'' ''id'' 1]"
proof -
  have m: "photo_a \<in> set (rows (store stocked_page))"
    by (simp add: stocked_page_def initial_def stocked_platform_def)
  have i: "id' photo_a = 1" "storage_path photo_a = ''10-a.png''"
    by (simp_all add: photo_a_def)
  from handleDelete_dangling_row [OF m, where e = "TransportError ''offline''"
      and fault_fetch = None and answer = "\<lparr> data = None, error = Some (TransportError ''offline'') \<rparr>"
      and t = stocked_page] m
  show ?thesis
    by (simp add: i fetchImages_ok stocked_page_def initial_def stocked_platform_def listing_stocked)
qed

text \<open>
  C3. \<^verbatim>\<open>handleDelete\<close> sends its requests in the order object removal, row deletion,
  refresh, each only after the one before has succeeded, and the refresh shows the table
  without the deleted row. If the object removal fails, that request is the only one sent:
  the platform (row and object) and the list are unchanged, and the failure is one console
  line. The same order holds step by step when other events of the page come in between:
  the handler starts by sending the removal alone, and each answer either ends it with a
  console line or makes it send the next request alone.
\<close>

theorem handleDelete_in_order:
  "sent (handleDelete i p None None fault_fetch s) =
     sent s @ [StorageRemove ''photos'' [p], DeleteEq ''images'' ''id'' i, fetch_request]
   \<and> images (handleDelete i p None None None s) =
       order_created_at False (filter (\<lambda>r. id' r \<noteq> i) (rows (store s)))
   \<and> sent (handleDelete i p None (Some e) fault_fetch s) =
       sent s @ [StorageRemove ''photos'' [p], DeleteEq ''images'' ''id'' i]
   \<and> handleDelete i p (Some e) fault_delete fault_fetch s =
       s \<lparr> console := console s @ [(''Error deleting image:'', e)],
           sent := sent s @ [StorageRemove ''photos'' [p]] \<rparr>
   \<and> store (handleDelete i p (Some e) fault_delete fault_fetch s) = store s
   \<and> images (handleDelete i p (Some e) fault_delete fault_fetch s) = images s
   \<and> handleDelete_begin i p t =
       t \<lparr> sent := sent t @ [StorageRemove ''photos'' [p]],
           pending := pending t @ [(Delete_remove i, StorageRemove ''photos'' [p])] \<rparr>
   \<and> (error answer = Some e \<longrightarrow>
        handleDelete_after_remove i answer t =
          t \<lparr> console := console t @ [(''Error deleting image:'', e)] \<rparr>)
   \<and> (error answer = None \<longrightarrow>
        handleDelete_after_remove i answer t =
          t \<lparr> sent := sent t @ [DeleteEq ''images'' ''id'' i],
              pending := pending t @ [(Delete_row, DeleteEq ''images'' ''id'' i)] \<rparr>
        \<and> handleDelete_after_delete answer t =
          t \<lparr> sent := sent t @ [fetch_request],
              pending := pending t @ [(Delete_fetch, fetch_request)] \<rparr>)"
  by (cases fault_fetch)
    (simp_all add: handleDelete_succeeded handleDelete_row_failed handleDelete_remove_failed
      fetchImages_ok fetchImages_failed handleDelete_begin_def handleDelete_after_remove_def
      handleDelete_after_delete_def issue_def console_error_def)

theorem handleDelete_in_order_witness:
  "sent (handleDelete 1 ''10-a.png'' None None None stocked_page) =
     [StorageRemove ''photos'' [''10-a.png''], DeleteEq ''images'' ''id'' 1, fetch_request]
   \<and> images (handleDelete 1 ''10-a.png'' None None None stocked_page) = [photo_b]
   \<and> sent (handleDelete 1 ''10-a.png'' (Some (TransportError ''offline'')) None None stocked_page) =
     [StorageRemove ''photos'' [''10-a.png'']]
   \<and> rows (store (handleDelete 1 ''10-a.png'' (Some (TransportError ''offline'')) None None stocked_page))
       = [photo_a, photo_b]
   \<and> objects (store (handleDelete 1 ''10-a.png'' (Some (TransportError ''offline'')) None None stocked_page))
        ''10-a.png'' = Some png_object"
  using handleDelete_in_order [where i = 1 and p = "''10-a.png''" and fault_fetch = None
      and s = stocked_page and e = "TransportError ''offline''" and fault_delete = None]
  by (simp add: stocked_page_def initial_def stocked_platform_def order_created_at_def
      photo_a_def photo_b_def)

text \<open>
  C4. When the storage write of \<^verbatim>\<open>handleUpload\<close> answers with an error (a fault, or the
  key being taken), the write is the only request sent, so there is no refresh; the
  platform is unchanged, so no record has been created; the list and the selection are
  kept, the flag is down again, and the error is one console line. What the page renders
  is what it rendered before. Resumed with the failed write among other events, the
  handler only lowers the flag and writes that line.
\<close>

theorem handleUpload_put_failure_isolated:
  assumes "selectedFile s = Some f"
    and "error (fst (serve (upload_request now f) fault_put (store s))) = Some e"
  shows "handleUpload now fault_put fault_fetch s =
           s \<lparr> uploading := False,
               console := console s @ [(''Error uploading image:'', e)],
               sent := sent s @ [upload_request now f] \<rparr>
         \<and> upload_request now f \<noteq> fetch_request
         \<and> rows (store (handleUpload now fault_put fault_fetch s)) = rows (store s)
         \<and> store (handleUpload now fault_put fault_fetch s) = store s
         \<and> images (handleUpload now fault_put fault_fetch s) = images s
         \<and> selectedFile (handleUpload now fault_put fault_fetch s) = Some f
         \<and> (\<not> uploading s \<longrightarrow>
              PhotoGallery (handleUpload now fault_put fault_fetch s) = PhotoGallery s)
         \<and> (error answer = Some e \<longrightarrow>
              handleUpload_after_put answer t =
                t \<lparr> uploading := False,
                    console := console t @ [(''Error uploading image:'', e)] \<rparr>)"
  using assms
  by (simp add: handleUpload_failed upload_request_def fetch_request_def PhotoGallery_view
      handleUpload_after_put_def setUploading_def console_error_def)

theorem handleUpload_put_failure_isolated_witness:
  "selectedFile (page_with_cat empty_platform) = Some cat_png
   \<and> error (fst (serve (upload_request 1700000000000 cat_png) (Some (TransportError ''offline''))
        (store (page_with_cat empty_platform)))) = Some (TransportError ''offline'')
   \<and> sent (handleUpload 1700000000000 (Some (TransportError ''offline'')) None
        (page_with_cat empty_platform)) = [upload_request 1700000000000 cat_png]
   \<and> rows (store (handleUpload 1700000000000 (Some (TransportError ''offline'')) None
        (page_with_cat empty_platform))) = []
   \<and> console (handleUpload 1700000000000 (Some (TransportError ''offline'')) None
        (page_with_cat empty_platform)) = [(''Error uploading image:'', TransportError ''offline'')]
   \<and> PhotoGallery (handleUpload 1700000000000 (Some (TransportError ''offline'')) None
        (page_with_cat empty_platform)) = PhotoGallery (page_with_cat empty_platform)"
proof -
  have f: "selectedFile (page_with_cat empty_platform) = Some cat_png"
    by (simp add: page_with_cat_def initial_def)
  have e: "error (fst (serve (upload_request 1700000000000 cat_png) (Some (TransportError ''offline''))
        (store (page_with_cat empty_platform)))) = Some (TransportError ''offline'')"
    by (simp add: serve_fault)
  have u: "\<not> uploading (page_with_cat empty_platform)"
    by (simp add: page_with_cat_def initial_def)
  note t = handleUpload_put_failure_isolated [OF f e, where fault_fetch = None
      and answer = "\<lparr> data = None, error = Some (TransportError ''offline'') \<rparr>"
      and t = "page_with_cat empty_platform"]
  from t have h: "handleUpload 1700000000000 (Some (TransportError ''offline'')) None
        (page_with_cat empty_platform) =
      (page_with_cat empty_platform)
        \<lparr> uploading := False,
          console := console (page_with_cat empty_platform)
                       @ [(''Error uploading image:'', TransportError ''offline'')],
          sent := sent (page_with_cat empty_platform) @ [upload_request 1700000000000 cat_png] \<rparr>"
    by blast
  from t u have v: "PhotoGallery (handleUpload 1700000000000 (Some (TransportError ''offline'')) None
        (page_with_cat empty_platform)) = PhotoGallery (page_with_cat empty_platform)"
    by blast
  from f e v show ?thesis
    by (simp add: h) (simp add: page_with_cat_def initial_def empty_platform_def)
qed

text \<open>
  C5. \<^verbatim>\<open>fetchImages\<close> (listImages): when the store answers, the fetched records replace the
  in-memory list, whatever it held (a missing \<^verbatim>\<open>data\<close> counts as the empty list); when the
  call fails, the list and every other piece of state stay as they were, and the only
  trace is one line on the console.
\<close>

theorem fetchImages_replaces_or_keeps:
  "fetchImages None s =
     s \<lparr> images := order_created_at False (rows (store s)), sent := sent s @ [fetch_request] \<rparr>
   \<and> fetchImages (Some e) s =
     s \<lparr> console := console s @ [(''Error fetching images:'', e)],
         sent := sent s @ [fetch_request] \<rparr>
   \<and> images (fetchImages (Some e) s) = images s
   \<and> PhotoGallery (fetchImages (Some e) s) = PhotoGallery s
   \<and> fetchImages_resume \<lparr> data = Some d, error = None \<rparr> s = s \<lparr> images := d \<rparr>
   \<and> fetchImages_resume \<lparr> data = None, error = None \<rparr> s = s \<lparr> images := [] \<rparr>
   \<and> images (fetchImages_resume \<lparr> data = d', error = Some e \<rparr> s) = images s"
  by (simp add: fetchImages_ok fetchImages_failed fetchImages_resume_def setImages_def
      console_error_def PhotoGallery_view)

theorem fetchImages_replaces_or_keeps_witness:
  "images (fetchImages None (stocked_page \<lparr> images := [photo_a] \<rparr>)) = [photo_b, photo_a]
   \<and> images (fetchImages (Some (TransportError ''offline'')) stocked_page) = [photo_b, photo_a]
   \<and> console (fetchImages (Some (TransportError ''offline'')) stocked_page)
       = [(''Error fetching images:'', TransportError ''offline'')]"
  using fetchImages_replaces_or_keeps [of "stocked_page \<lparr> images := [photo_a] \<rparr>" "TransportError ''offline''"]
    fetchImages_replaces_or_keeps [of stocked_page "TransportError ''offline''"]
  by (simp add: stocked_page_def initial_def stocked_platform_def listing_stocked)

text \<open>
  C6. In every state the mounted page can reach, the flag \<^verbatim>\<open>uploading\<close> is up exactly when
  one upload is in flight, and never are two. While it is up the file input and the upload
  button are disabled, so a click or a file choice changes nothing and no second upload
  starts. \<^verbatim>\<open>handleUpload\<close> raises the flag in the step that sends its write, keeps it up
  while it waits for the refresh, and lowers it when it ends, after a failed write as well
  as after the refresh.
\<close>

theorem uploading_flag_gate:
  assumes "s = run evs (mounted base b)"
  shows "uploads_in_flight s = (if uploading s then 1 else 0)
    \<and> (uploading s \<longrightarrow>
         input_disabled (PhotoGallery s) \<and> button_disabled (PhotoGallery s)
         \<and> step (ClickUpload now) s = s \<and> step (SelectFile chosen) s = s)
    \<and> (\<forall>f. selectedFile t = Some f \<longrightarrow>
         handleUpload_begin now t =
           t \<lparr> uploading := True, sent := sent t @ [upload_request now f],
               pending := pending t @ [(Upload_put, upload_request now f)] \<rparr>
         \<and> \<not> uploading (handleUpload now fault_put fault_fetch t))
    \<and> (\<forall>e. error r = Some e \<longrightarrow> \<not> uploading (handleUpload_after_put r t))
    \<and> (error r = None \<longrightarrow>
         uploading (handleUpload_after_put r t) = uploading t
         \<and> pending (handleUpload_after_put r t) = pending t @ [(Upload_fetch, fetch_request)])
    \<and> \<not> uploading (handleUpload_after_fetch r t)"
proof -
  from assms have "upload_gate s" by (simp add: gate_run gate_mounted)
  then have g: "uploads_in_flight s = (if uploading s then 1 else 0)"
    by (simp add: upload_gate_def)
  have d: "uploading s \<longrightarrow>
         input_disabled (PhotoGallery s) \<and> button_disabled (PhotoGallery s)
         \<and> step (ClickUpload now) s = s \<and> step (SelectFile chosen) s = s"
    by (simp add: PhotoGallery_view)
  have b: "handleUpload_begin now t =
           t \<lparr> uploading := True, sent := sent t @ [upload_request now f],
               pending := pending t @ [(Upload_put, upload_request now f)] \<rparr>"
    if "selectedFile t = Some f" for f
    using that by (simp add: handleUpload_begin_def issue_def setUploading_def)
  have p: "\<forall>e. error r = Some e \<longrightarrow> \<not> uploading (handleUpload_after_put r t)"
    by (simp add: handleUpload_after_put_def setUploading_def)
  have q: "error r = None \<longrightarrow>
         uploading (handleUpload_after_put r t) = uploading t
         \<and> pending (handleUpload_after_put r t) = pending t @ [(Upload_fetch, fetch_request)]"
    by (simp add: handleUpload_after_put_def issue_def)
  have f: "\<not> uploading (handleUpload_after_fetch r t)"
    by (simp add: handleUpload_after_fetch_def setUploading_def)
  from g d b p q f handleUpload_lowers_flag show ?thesis by blast
qed


theorem uploading_flag_gate_witness:
  "uploading (run [Deliver 0 None, SelectFile (Some cat_png), ClickUpload 1700000000000]
       (mounted project_url hooked_platform))
   \<and> uploads_in_flight (run [Deliver 0 None, SelectFile (Some cat_png), ClickUpload 1700000000000]
       (mounted project_url hooked_platform)) = 1
   \<and> button_disabled (PhotoGallery
       (run [Deliver 0 None, SelectFile (Some cat_png), ClickUpload 1700000000000]
         (mounted project_url hooked_platform)))
   \<and> run [Deliver 0 None, SelectFile (Some cat_png), ClickUpload 1700000000000,
           ClickUpload 1700000000001]
       (mounted project_url hooked_platform) =
      run [Deliver 0 None, SelectFile (Some cat_png), ClickUpload 1700000000000]
       (mounted project_url hooked_platform)
   \<and> \<not> uploading (run [Deliver 0 None, SelectFile (Some cat_png), ClickUpload 1700000000000,
           Deliver 0 None, Deliver 0 None]
       (mounted project_url hooked_platform))
   \<and> uploads_in_flight (run [Deliver 0 None, SelectFile (Some cat_png), ClickUpload 1700000000000,
           Deliver 0 None, Deliver 0 None]
       (mounted project_url hooked_platform)) = 0"
proof -
  let ?E = "[Deliver 0 None, SelectFile (Some cat_png), ClickUpload 1700000000000]"
  let ?F = "[Deliver 0 None, SelectFile (Some cat_png), ClickUpload 1700000000000,
             Deliver 0 None, Deliver 0 None]"
  let ?M = "mounted project_url hooked_platform"
  have u: "uploading (run ?E ?M)" by (simp only: in_flight_state) simp
  have v: "\<not> uploading (run ?F ?M)" by (simp only: finished_state) simp
  note a = uploading_flag_gate [OF refl, of ?E project_url hooked_platform 1700000000001]
  note b = uploading_flag_gate [OF refl, of ?F project_url hooked_platform]
  from a u have 1: "uploads_in_flight (run ?E ?M) = 1" by simp
  from a u have 2: "button_disabled (PhotoGallery (run ?E ?M))" by blast
  from a u have "step (ClickUpload 1700000000001) (run ?E ?M) = run ?E ?M" by blast
  then have 3: "run (?E @ [ClickUpload 1700000000001]) ?M = run ?E ?M"
    by (simp only: run_append run.simps)
  from b v have 4: "uploads_in_flight (run ?F ?M) = 0" by simp
  from u v 1 2 3 4 show ?thesis by simp
qed

text \<open>
  C7. For a selected file, the first request of \<^verbatim>\<open>handleUpload\<close> is the write to the
  bucket \<^verbatim>\<open>photos\<close> under the key made of the decimal digits of the current time, a
  hyphen and the file's name, with \<^verbatim>\<open>upsert\<close> false, the file's type as content type
  and its size and name as metadata. The platform refuses the write when the key is taken
  (nothing changes and the refusal is logged), and otherwise stores the bytes under the key
  with that content type and metadata.
\<close>

theorem handleUpload_storage_key_and_write:
  assumes "selectedFile s = Some f"
  shows "take (Suc (length (sent s))) (sent (handleUpload now fault_put fault_fetch s)) =
           sent s @ [StorageUpload ''photos'' (digits now @ ''-'' @ name f) f
                       \<lparr> cacheControl = ''3600'', upsert = False, contentType = type' f,
                         duplex = ''half'',
                         metadata = [(''size'', digits (size' f)), (''filename'', name f)] \<rparr>]
    \<and> filePath now f = digits now @ ''-'' @ name f
    \<and> digits now \<noteq> []
    \<and> (\<forall>c \<in> set (digits now). is_digit c)
    \<and> (\<forall>ob. objects (store s) (filePath now f) = Some ob \<longrightarrow>
          store (handleUpload now None fault_fetch s) = store s
          \<and> console (handleUpload now None fault_fetch s) =
              console s @ [(''Error uploading image:'', ResourceExists (filePath now f))])
    \<and> (objects (store s) (filePath now f) = None \<longrightarrow>
          objects (store (handleUpload now None fault_fetch s)) (filePath now f) =
            Some \<lparr> body = bytes f, object_contentType = type' f, object_cacheControl = ''3600'',
                   object_metadata = [(''size'', digits (size' f)), (''filename'', name f)] \<rparr>)"
proof -
  have a: "take (Suc (length (sent s))) (sent (handleUpload now fault_put fault_fetch s)) =
           sent s @ [upload_request now f]"
  proof (cases "error (fst (serve (upload_request now f) fault_put (store s)))")
    case (Some e)
    then show ?thesis by (simp add: handleUpload_failed [OF assms])
  next
    case None
    obtain r b where rb: "serve (upload_request now f) fault_put (store s) = (r, b)"
      by (cases "serve (upload_request now f) fault_put (store s)")
    with None have "error r = None" by simp
    from handleUpload_succeeded [OF assms rb this] show ?thesis
      by (simp add: setUploading_def setSelectedFile_def sent_fetchImages)
  qed
  have b: "store (handleUpload now None fault_fetch s) = store s
          \<and> console (handleUpload now None fault_fetch s) =
              console s @ [(''Error uploading image:'', ResourceExists (filePath now f))]"
    if "objects (store s) (filePath now f) = Some ob" for ob
  proof -
    from that have "error (fst (serve (upload_request now f) None (store s))) =
        Some (ResourceExists (filePath now f))"
      by (simp add: upload_request_def upload_options_def serve_put_taken)
    from handleUpload_failed [OF assms this] show ?thesis by simp
  qed
  have c: "objects (store (handleUpload now None fault_fetch s)) (filePath now f) =
            Some \<lparr> body = bytes f, object_contentType = type' f, object_cacheControl = ''3600'',
                   object_metadata = [(''size'', digits (size' f)), (''filename'', name f)] \<rparr>"
    if "objects (store s) (filePath now f) = None"
    using that
    by (simp add: handleUpload_accepted(1) [OF assms that] upload_request_def serve_put_free
        upload_options_def)
  from a b c show ?thesis
    by (simp add: upload_request_def upload_options_def filePath_def digits_nonempty
        digits_all_digits)
qed

theorem handleUpload_storage_key_and_write_witness:
  "selectedFile (page_with_cat empty_platform) = Some cat_png
   \<and> sent (handleUpload 1700000000000 None None (page_with_cat empty_platform)) ! 0 =
       StorageUpload ''photos'' ''1700000000000-cat.png'' cat_png
         \<lparr> cacheControl = ''3600'', upsert = False, contentType = ''image/png'', duplex = ''half'',
           metadata = [(''size'', ''2048''), (''filename'', ''cat.png'')] \<rparr>
   \<and> objects (store (handleUpload 1700000000000 None None (page_with_cat empty_platform)))
        ''1700000000000-cat.png'' =
       Some \<lparr> body = bytes cat_png, object_contentType = ''image/png'',
              object_cacheControl = ''3600'',
              object_metadata = [(''size'', ''2048''), (''filename'', ''cat.png'')] \<rparr>
   \<and> selectedFile (page_with_cat taken_platform) = Some cat_png
   \<and> store (handleUpload 1700000000000 None None (page_with_cat taken_platform)) = taken_platform
   \<and> console (handleUpload 1700000000000 None None (page_with_cat taken_platform)) =
       [(''Error uploading image:'', ResourceExists ''1700000000000-cat.png'')]"
proof -
  have p: "filePath 1700000000000 cat_png = ''1700000000000-cat.png''"
    by (simp add: filePath_def digits_now cat_png_fields)
  have f: "selectedFile (page_with_cat empty_platform) = Some cat_png"
    by (simp add: page_with_cat_def initial_def)
  have g: "selectedFile (page_with_cat taken_platform) = Some cat_png"
    by (simp add: page_with_cat_def initial_def)
  have k: "objects (store (page_with_cat empty_platform)) (filePath 1700000000000 cat_png) = None"
    by (simp add: page_with_cat_def initial_def empty_platform_def)
  have l: "objects (store (page_with_cat taken_platform)) (filePath 1700000000000 cat_png) =
      Some png_object"
    by (simp add: p page_with_cat_def initial_def taken_platform_def)
  note t = handleUpload_storage_key_and_write [OF f, of 1700000000000 None None]
  note u = handleUpload_storage_key_and_write [OF g, of 1700000000000 None None]
  from t have "take (Suc 0) (sent (handleUpload 1700000000000 None None (page_with_cat empty_platform)))
      = [StorageUpload ''photos'' ''1700000000000-cat.png'' cat_png
         \<lparr> cacheControl = ''3600'', upsert = False, contentType = ''image/png'', duplex = ''half'',
           metadata = [(''size'', ''2048''), (''filename'', ''cat.png'')] \<rparr>]"
    by (simp add: digits_now digits_2048 cat_png_fields page_with_cat_def initial_def)
  then have a: "sent (handleUpload 1700000000000 None None (page_with_cat empty_platform)) ! 0 =
       StorageUpload ''photos'' ''1700000000000-cat.png'' cat_png
         \<lparr> cacheControl = ''3600'', upsert = False, contentType = ''image/png'', duplex = ''half'',
           metadata = [(''size'', ''2048''), (''filename'', ''cat.png'')] \<rparr>"
    by (metis nth_take zero_less_Suc nth_Cons_0)
  from t k have b: "objects (store (handleUpload 1700000000000 None None (page_with_cat empty_platform)))
        (filePath 1700000000000 cat_png) =
       Some \<lparr> body = bytes cat_png, object_contentType = type' cat_png,
              object_cacheControl = ''3600'',
              object_metadata = [(''size'', digits (size' cat_png)), (''filename'', name cat_png)] \<rparr>"
    by blast
  from u l have c: "store (handleUpload 1700000000000 None None (page_with_cat taken_platform)) =
        store (page_with_cat taken_platform)
      \<and> console (handleUpload 1700000000000 None None (page_with_cat taken_platform)) =
        console (page_with_cat taken_platform) @
          [(''Error uploading image:'', ResourceExists (filePath 1700000000000 cat_png))]"
    by blast
  from f g a b c show ?thesis
    by (simp add: p cat_png_fields digits_2048) (simp add: page_with_cat_def initial_def)
qed

text \<open>
  C8. \<^verbatim>\<open>fetchImages\<close> asks the store for the table \<^verbatim>\<open>images\<close> ordered by the column
  \<^verbatim>\<open>created_at\<close>, not ascending, and puts the answer into the state as it comes: for
  stored records with pairwise different timestamps, the list in the state is strictly
  descending in \<^verbatim>\<open>created_at\<close>, newest first, and it holds exactly the stored records.
\<close>

theorem fetchImages_newest_first:
  assumes "distinct (map created_at (rows (store s)))"
  shows "sent (fetchImages None s) = sent s @ [Select ''images'' ''created_at'' False]
         \<and> sorted_wrt (\<lambda>a b. created_at b < created_at a) (images (fetchImages None s))
         \<and> set (images (fetchImages None s)) = set (rows (store s))
         \<and> length (images (fetchImages None s)) = length (rows (store s))"
  using strict_desc_sort_key [OF assms]
  by (simp add: fetchImages_ok fetch_request_def order_created_at_def)

theorem fetchImages_newest_first_witness:
  "distinct (map created_at (rows (store stocked_page)))
   \<and> sent (fetchImages None stocked_page) = [Select ''images'' ''created_at'' False]
   \<and> sorted_wrt (\<lambda>a b. created_at b < created_at a) (images (fetchImages None stocked_page))
   \<and> images (fetchImages None stocked_page) = [photo_b, photo_a]"
proof -
  have d: "distinct (map created_at (rows (store stocked_page)))"
    by (simp add: stocked_page_def initial_def stocked_platform_def photo_a_def photo_b_def)
  have "images (fetchImages None stocked_page) = [photo_b, photo_a]"
    by (simp add: fetchImages_ok stocked_page_def initial_def stocked_platform_def listing_stocked)
  with d fetchImages_newest_first [OF d] show ?thesis
    by (simp add: stocked_page_def initial_def)
qed

text \<open>
  C9. \<^verbatim>\<open>getPublicImageUrl\<close> leaves the whole state as it was: the three cells of the page,
  the console, the platform, and the requests sent and awaited. Called any number of times
  in a row for one storage path it returns the same URL every time, and the URL is the same
  from any two states of the page with the same configured client, whatever else differs in
  them. A rendering of the component, which calls it once for each image, leaves the state
  as it was too, and shows for each card what the call returns.
\<close>

theorem getPublicImageUrl_pure:
  "snd (getPublicImageUrl p s) = s
   \<and> getPublicImageUrl_times n p s = (replicate n (fst (getPublicImageUrl p s)), s)
   \<and> (supabaseUrl s' = supabaseUrl s \<longrightarrow>
        fst (getPublicImageUrl p s') = fst (getPublicImageUrl p s))
   \<and> snd (render s) = s
   \<and> map src (cards (PhotoGallery s)) =
       map (\<lambda>img. fst (getPublicImageUrl (storage_path img) s)) (images s)"
  by (simp add: getPublicImageUrl_eq getPublicImageUrl_times_eq render_def render_cards_eq
      PhotoGallery_view render_card_def)

theorem getPublicImageUrl_pure_witness:
  "getPublicImageUrl ''10-a.png'' stocked_page =
     (''https://project.supabase.co/storage/v1/object/public/photos/10-a.png'', stocked_page)
   \<and> getPublicImageUrl_times 3 ''10-a.png'' stocked_page =
       (replicate 3 ''https://project.supabase.co/storage/v1/object/public/photos/10-a.png'',
        stocked_page)
   \<and> supabaseUrl (page_with_cat empty_platform) = supabaseUrl stocked_page
   \<and> fst (getPublicImageUrl ''10-a.png'' (page_with_cat empty_platform)) =
       fst (getPublicImageUrl ''10-a.png'' stocked_page)
   \<and> snd (render stocked_page) = stocked_page
   \<and> map src (cards (PhotoGallery stocked_page)) =
       [''https://project.supabase.co/storage/v1/object/public/photos/20-b.png'',
        ''https://project.supabase.co/storage/v1/object/public/photos/10-a.png'']"
proof -
  have u: "supabaseUrl (page_with_cat empty_platform) = supabaseUrl stocked_page"
    by (simp add: page_with_cat_def stocked_page_def initial_def)
  have a: "fst (getPublicImageUrl ''10-a.png'' stocked_page) =
      ''https://project.supabase.co/storage/v1/object/public/photos/10-a.png''"
    by (simp add: getPublicImageUrl_eq getPublicUrl_def stocked_page_def initial_def project_url_def)
  have b: "fst (getPublicImageUrl ''20-b.png'' stocked_page) =
      ''https://project.supabase.co/storage/v1/object/public/photos/20-b.png''"
    by (simp add: getPublicImageUrl_eq getPublicUrl_def stocked_page_def initial_def project_url_def)
  have i: "images stocked_page = [photo_b, photo_a]"
    "storage_path photo_a = ''10-a.png''" "storage_path photo_b = ''20-b.png''"
    by (simp_all add: stocked_page_def initial_def photo_a_def photo_b_def)
  note t = getPublicImageUrl_pure [where p = "''10-a.png''" and s = stocked_page and n = 3
      and s' = "page_with_cat empty_platform"]
  from t have 1: "snd (getPublicImageUrl ''10-a.png'' stocked_page) = stocked_page" by blast
  from t have 2: "getPublicImageUrl_times 3 ''10-a.png'' stocked_page =
       (replicate 3 (fst (getPublicImageUrl ''10-a.png'' stocked_page)), stocked_page)" by blast
  from t u have 3: "fst (getPublicImageUrl ''10-a.png'' (page_with_cat empty_platform)) =
       fst (getPublicImageUrl ''10-a.png'' stocked_page)" by blast
  from t have 4: "snd (render stocked_page) = stocked_page" by blast
  from t have 5: "map src (cards (PhotoGallery stocked_page)) =
       map (\<lambda>img. fst (getPublicImageUrl (storage_path img) stocked_page)) (images stocked_page)"
    by blast
  from 1 a have 6: "getPublicImageUrl ''10-a.png'' stocked_page =
     (''https://project.supabase.co/storage/v1/object/public/photos/10-a.png'', stocked_page)"
    by (simp add: prod_eq_iff)
  from u 2 3 4 5 6 show ?thesis
    by (simp only: a b i list.map fst_conv snd_conv simp_thms)
qed

text \<open>
  C10. With no file selected \<^verbatim>\<open>handleUpload\<close> returns at once: the whole state is as
  before, so no request has been sent, the list and the selection are untouched and the
  upload flag has not moved. The same holds for the handler cut at its awaits and for a
  click on the (then disabled) button.
\<close>

theorem handleUpload_without_file_noop:
  assumes "selectedFile s = None"
  shows "handleUpload now fault_put fault_fetch s = s
         \<and> handleUpload_begin now s = s
         \<and> step (ClickUpload now) s = s"
  using assms by (simp add: handleUpload_def handleUpload_begin_def)

theorem handleUpload_without_file_noop_witness:
  "selectedFile stocked_page = None
   \<and> handleUpload 1700000000000 None None stocked_page = stocked_page
   \<and> sent (handleUpload 1700000000000 None None stocked_page) = []
   \<and> \<not> uploading (handleUpload 1700000000000 None None stocked_page)"
proof -
  have n: "selectedFile stocked_page = None"
    by (simp add: stocked_page_def initial_def)
  from handleUpload_without_file_noop [OF n, of 1700000000000 None None] n
  show ?thesis by (simp add: stocked_page_def initial_def)
qed

end
